theory Spec2Isabelle
  imports Complex_Main
begin

section \<open>Text: Python strings and the Unicode tables\<close>

text \<open>
  A Python \<^verbatim>\<open>str\<close> is a sequence of Unicode code points, so a string is a list of
  code points and its length counts code points. The methods \<^verbatim>\<open>str.isalnum\<close>,
  \<^verbatim>\<open>str.lower\<close> and \<^verbatim>\<open>str.strip\<close> read the interpreter's Unicode database, which is
  no part of the program: the functions below take it as a parameter, so every
  general theorem holds for whatever the database says. Lower-casing one code
  point may give several (full case mapping), hence \<open>ch_lower\<close> returns a string.
\<close>

type_synonym codepoint = nat
type_synonym ustring = "codepoint list"

record unicode_db =
  ch_isalnum :: "codepoint \<Rightarrow> bool"
  ch_lower :: "codepoint \<Rightarrow> ustring"
  ch_isspace :: "codepoint \<Rightarrow> bool"

text \<open>
  The fragment of CPython's database that the concrete evaluations read. It is exact
  on ASCII, on the whitespace code points (the list is complete), on the CJK unified
  ideographs U+4E00 to U+9FA5, on the CJK punctuation of the program's own literals
  (U+2026, U+3002, U+FF0C, U+FF1A, U+FF1F), on U+0130 (capital I with dot above) and
  on U+0307 (combining dot above). Elsewhere the entries are placeholders, and no
  theorem evaluates them there.
\<close>

definition py_isspace :: "codepoint \<Rightarrow> bool" where
  "py_isspace c = (c \<in> set [9, 10, 11, 12, 13, 28, 29, 30, 31, 32, 133, 160, 5760,
     8192, 8193, 8194, 8195, 8196, 8197, 8198, 8199, 8200, 8201, 8202,
     8232, 8233, 8239, 8287, 12288])"

definition py_isalnum :: "codepoint \<Rightarrow> bool" where
  "py_isalnum c = ((48 \<le> c \<and> c \<le> 57) \<or> (65 \<le> c \<and> c \<le> 90) \<or> (97 \<le> c \<and> c \<le> 122)
     \<or> c = 304 \<or> (19968 \<le> c \<and> c \<le> 40869))"

definition py_lower :: "codepoint \<Rightarrow> ustring" where
  "py_lower c = (if 65 \<le> c \<and> c \<le> 90 then [c + 32]
                 else if c = 304 then [105, 775] else [c])"

definition py_unicode :: unicode_db where
  "py_unicode = \<lparr>ch_isalnum = py_isalnum, ch_lower = py_lower, ch_isspace = py_isspace\<rparr>"

subsection \<open>String methods\<close>

text \<open>\<^verbatim>\<open>s.strip()\<close>: drop the whitespace at both ends.\<close>

definition py_strip :: "unicode_db \<Rightarrow> ustring \<Rightarrow> ustring" where
  "py_strip U s = rev (dropWhile (ch_isspace U) (rev (dropWhile (ch_isspace U) s)))"

text \<open>\<^verbatim>\<open>s.endswith(suf)\<close>.\<close>

definition py_endswith :: "ustring \<Rightarrow> ustring \<Rightarrow> bool" where
  "py_endswith s suf = (length suf \<le> length s \<and> drop (length s - length suf) s = suf)"

text \<open>\<^verbatim>\<open>s.startswith(p)\<close> and \<^verbatim>\<open>needle in hay\<close> (the substring test).\<close>

fun py_startswith :: "ustring \<Rightarrow> ustring \<Rightarrow> bool" where
  "py_startswith s [] = True"
| "py_startswith [] (p # ps) = False"
| "py_startswith (c # cs) (p # ps) = (c = p \<and> py_startswith cs ps)"

fun py_contains :: "ustring \<Rightarrow> ustring \<Rightarrow> bool" where
  "py_contains [] needle = (needle = [])"
| "py_contains (c # cs) needle = (py_startswith (c # cs) needle \<or> py_contains cs needle)"

section \<open>The evaluator and the prompt builder\<close>

text \<open>
  \<^verbatim>\<open>
  def normalize_text(s): return "".join(ch.lower() for ch in s if ch.isalnum())
  \<close>
\<close>

definition normalize_text :: "unicode_db \<Rightarrow> ustring \<Rightarrow> ustring" where
  "normalize_text U s = concat (map (ch_lower U) (filter (ch_isalnum U) s))"

text \<open>
  \<^verbatim>\<open>
  def is_answer_correct(answer, ground_truth):
      if not ground_truth: return None
      normalized_truth = normalize_text(ground_truth)
      normalized_answer = normalize_text(answer)
      if not normalized_truth: return None
      return normalized_truth in normalized_answer
  \<close>
  The tri-state result is a \<open>bool option\<close>; \<open>None\<close> is "unknown".
\<close>

definition is_answer_correct :: "unicode_db \<Rightarrow> ustring \<Rightarrow> ustring \<Rightarrow> bool option" where
  "is_answer_correct U answer ground_truth =
     (if ground_truth = [] then None
      else let normalized_truth = normalize_text U ground_truth;
               normalized_answer = normalize_text U answer
           in if normalized_truth = [] then None
              else Some (py_contains normalized_answer normalized_truth))"

text \<open>
  \<^verbatim>\<open>
  def build_prompt(question, suffix):
      suffix = suffix.strip()
      if suffix and not question.endswith(suffix):
          return f"{question.strip()} {suffix}".strip()
      return question.strip()
  \<close>
  The test \<^verbatim>\<open>question.endswith(suffix)\<close> reads the question as given, before it is
  trimmed. Code point 32 is the space of the format string.
\<close>

definition build_prompt :: "unicode_db \<Rightarrow> ustring \<Rightarrow> ustring \<Rightarrow> ustring" where
  "build_prompt U question suffix =
     (let suffix' = py_strip U suffix
      in if suffix' \<noteq> [] \<and> \<not> py_endswith question suffix'
         then py_strip U (py_strip U question @ [32] @ suffix')
         else py_strip U question)"

section \<open>Data model\<close>

record QuestionSpec =
  prompt :: ustring
  ground_truth :: ustring
  rationale :: ustring

definition DEFAULT_QUESTIONS :: "QuestionSpec list" where
  "DEFAULT_QUESTIONS =
   [\<lparr>prompt = [19968, 20010, 31726, 23376, 37324, 26377, 49, 53, 20010, 33529, 26524, 12290,
        22914, 26524, 23567, 26126, 25343, 36208, 20102, 51, 20010, 65292, 28982, 21518,
        23567, 32418, 21448, 25918, 20837, 20102, 27604, 29616, 22312, 31726, 23376, 37324,
        33529, 26524, 25968, 22810, 19968, 21322, 30340, 33529, 26524, 65292, 26368, 21518,
        31726, 23376, 37324, 26377, 22810, 23569, 20010, 33529, 26524, 65311],
      ground_truth = [51, 48],
      rationale = [22810, 27493, 31639, 26415, 39064, 65292, 23481, 26131, 22312, 39, 27604,
        29616, 22312, 22810, 19968, 21322, 39, 30340, 35821, 20041, 19978, 20986, 38169,
        12290]\<rparr>,
    \<lparr>prompt = [22914, 26524, 19977, 21482, 29483, 19977, 22825, 33021, 25417, 19977, 21482,
        32769, 40736, 65292, 37027, 20040, 20061, 21482, 29483, 20061, 22825, 33021, 25417,
        22810, 23569, 21482, 32769, 40736, 65311],
      ground_truth = [50, 55],
      rationale = [27604, 20363, 25512, 29702, 39064, 65292, 32771, 23519, 21333, 20301, 36895,
        29575, 26159, 21542, 34987, 27491, 30830, 25277, 35937, 12290]\<rparr>,
    \<lparr>prompt = [25105, 21069, 38754, 26377, 20004, 20010, 20154, 65292, 21518, 38754, 26377,
        20004, 20010, 20154, 65292, 25105, 20204, 36825, 19968, 25490, 19968, 20849, 26377,
        22810, 23569, 20154, 65311],
      ground_truth = [53],
      rationale = [31354, 38388, 20851, 31995, 39064, 65292, 90, 101, 114, 111, 45, 83, 104,
        111, 116, 24120, 25226, 31572, 26696, 35823, 21028, 20026, 52, 12290]\<rparr>]"

text \<open>The namespace that \<^verbatim>\<open>parse_args\<close> returns (argument parsing itself is not modelled).\<close>

record args =
  model :: ustring
  temperature :: real
  cot_suffix :: ustring
  zero_shot_suffix :: ustring
  max_retries :: int
  retry_wait :: real
  pause :: real
  output_dir :: ustring
  questions_file :: "ustring option"
  base_url :: "ustring option"
  replay_file :: "ustring option"
  dry_run :: bool
  save_markdown :: bool
  tag :: "ustring option"

text \<open>The entries of \<^verbatim>\<open>results\<close> and the \<^verbatim>\<open>metadata\<close> dictionary of \<^verbatim>\<open>main\<close>.\<close>

record result_entry =
  r_question :: ustring
  r_rationale :: ustring
  r_ground_truth :: ustring
  zero_shot_prompt :: ustring
  cot_prompt :: ustring
  zero_shot_answer :: ustring
  cot_answer :: ustring
  zero_shot_correct :: "bool option"
  cot_correct :: "bool option"

record metadata =
  run_id :: ustring
  m_model :: ustring
  m_temperature :: real
  m_cot_suffix :: ustring
  m_zero_shot_suffix :: ustring
  question_count :: nat
  timestamp :: ustring
  m_replay_file :: "ustring option"

subsection \<open>Exceptions\<close>

text \<open>
  \<open>call_error\<close> is what the \<^verbatim>\<open>try\<close> block of \<^verbatim>\<open>run_chat_completion\<close> can catch;
  \<open>error\<close> is what leaves a function of the program.
\<close>

datatype call_error = AttributeError | ServiceError ustring

datatype error =
  EnvironmentError
| RuntimeError_sdk
| RuntimeError_api "call_error option"
| KeyError ustring
| MissingKey string
| FileError ustring
| ValueError
| OverflowError

subsection \<open>The world outside the program\<close>

text \<open>
  What the program reads: the environment variable, whether the SDK imported, the
  parsed JSON of the files it opens (\<open>None\<close>: the file cannot be read or is not JSON
  of the expected shape), the clock, the longest duration \<^verbatim>\<open>time.sleep\<close> accepts, and
  the remote service. The service answers the \<open>k\<close>-th request of the run, so any
  behaviour of it during one run is some value of \<open>service\<close>.
\<close>

record question_item =
  item_prompt :: "ustring option"
  item_ground_truth :: "ustring option"
  item_rationale :: "ustring option"

record replay_item =
  item_question :: "ustring option"
  item_zero_shot_answer :: "ustring option"
  item_cot_answer :: "ustring option"

record env =
  getenv_OPENAI_API_KEY :: "ustring option"
  openai_installed :: bool
  questions_json :: "ustring \<Rightarrow> question_item list option"
  replay_json :: "ustring \<Rightarrow> replay_item list option"
  clock_stamp :: ustring
  clock_iso :: ustring
  sleep_max :: real
  service :: "nat \<Rightarrow> ustring \<Rightarrow> ustring \<Rightarrow> real \<Rightarrow> call_error + ustring"

text \<open>
  What the program does to the world, in order: requests to the service, sleeps,
  directories made and files written. \<^verbatim>\<open>json.dumps(payload)\<close> is kept as the payload
  and the Markdown table as the arguments of \<^verbatim>\<open>format_markdown\<close>. Printing is left out.
  The float arguments (temperature, waits) are finite numbers, taken as exact reals;
  multiplying one by a power of two is exact in floating point short of overflow, and
  an overflowing product is a duration \<^verbatim>\<open>time.sleep\<close> refuses like any too long one.
\<close>

datatype path = Path ustring | Slash path ustring

datatype file_content =
  JsonPayload metadata "result_entry list"
| MarkdownTable "result_entry list" metadata

datatype event =
  Request ustring ustring real
| Sleep real
| MakeDirs path
| WriteText path file_content

record world =
  requests :: nat
  trace :: "event list"

definition initial_world :: world where
  "initial_world = \<lparr>requests = 0, trace = []\<rparr>"

definition emit :: "event \<Rightarrow> world \<Rightarrow> world" where
  "emit ev w = w\<lparr>trace := trace w @ [ev]\<rparr>"

text \<open>
  \<^verbatim>\<open>time.sleep(seconds)\<close> first converts the duration to the platform's time type and
  raises \<^verbatim>\<open>OverflowError\<close> when it does not fit, in either direction; it then raises
  \<^verbatim>\<open>ValueError\<close> for a negative duration; otherwise it sleeps. A duration the operating
  system refuses is not told apart from one that does not fit.
\<close>

definition time_sleep :: "env \<Rightarrow> real \<Rightarrow> world \<Rightarrow> (error + unit) \<times> world" where
  "time_sleep E seconds w =
     (if sleep_max E < \<bar>seconds\<bar> then (Inl OverflowError, w)
      else if seconds < 0 then (Inl ValueError, w)
      else (Inr (), emit (Sleep seconds) w))"

definition truthy :: "ustring option \<Rightarrow> bool" where
  "truthy x = (case x of None \<Rightarrow> False | Some s \<Rightarrow> s \<noteq> [])"

definition or_else :: "ustring \<Rightarrow> ustring \<Rightarrow> ustring" where
  "or_else s d = (if s = [] then d else s)"

section \<open>Operations\<close>

subsection \<open>Loading the questions and the replay fixture\<close>

text \<open>
  \<^verbatim>\<open>
  def load_questions(path):
      if not path: return DEFAULT_QUESTIONS
      data = json.loads(Path(path).read_text("utf-8"))
      questions = []
      for item in data:
          questions.append(QuestionSpec(prompt=item["prompt"],
              ground_truth=item.get("ground_truth", ""), rationale=item.get("rationale", "")))
      return questions
  \<close>
\<close>

fun questions_loop :: "question_item list \<Rightarrow> QuestionSpec list \<Rightarrow> error + QuestionSpec list" where
  "questions_loop [] questions = Inr questions"
| "questions_loop (item # data) questions =
     (case item_prompt item of
        None \<Rightarrow> Inl (MissingKey ''prompt'')
      | Some p \<Rightarrow>
          questions_loop data
            (questions @
              [\<lparr>prompt = p,
                ground_truth = (case item_ground_truth item of None \<Rightarrow> [] | Some g \<Rightarrow> g),
                rationale = (case item_rationale item of None \<Rightarrow> [] | Some r \<Rightarrow> r)\<rparr>]))"

definition load_questions :: "env \<Rightarrow> ustring option \<Rightarrow> error + QuestionSpec list" where
  "load_questions E path =
     (if \<not> truthy path then Inr DEFAULT_QUESTIONS
      else case questions_json E (the path) of
             None \<Rightarrow> Inl (FileError (the path))
           | Some data \<Rightarrow> questions_loop data [])"

text \<open>
  \<^verbatim>\<open>
  def load_replay_data(path):
      data = json.loads(Path(path).read_text("utf-8"))
      lookup = {}
      for item in data.get("records", []):
          lookup[item["question"]] = {"zero_shot": item["zero_shot_answer"],
                                      "cot": item["cot_answer"]}
      return lookup
  \<close>
  The dictionary is an association list in insertion order, each value the pair of
  the two recorded answers. An assignment evaluates its right-hand side first, so a
  missing answer key is reported before a missing question key.
\<close>

type_synonym replay_lookup = "(ustring \<times> (ustring \<times> ustring)) list"

fun dict_set :: "'k \<Rightarrow> 'v \<Rightarrow> ('k \<times> 'v) list \<Rightarrow> ('k \<times> 'v) list" where
  "dict_set k v [] = [(k, v)]"
| "dict_set k v ((k', v') # d) = (if k' = k then (k, v) # d else (k', v') # dict_set k v d)"

fun replay_loop :: "replay_item list \<Rightarrow> replay_lookup \<Rightarrow> error + replay_lookup" where
  "replay_loop [] lookup = Inr lookup"
| "replay_loop (item # records) lookup =
     (case item_zero_shot_answer item of
        None \<Rightarrow> Inl (MissingKey ''zero_shot_answer'')
      | Some z \<Rightarrow>
          (case item_cot_answer item of
             None \<Rightarrow> Inl (MissingKey ''cot_answer'')
           | Some c \<Rightarrow>
               (case item_question item of
                  None \<Rightarrow> Inl (MissingKey ''question'')
                | Some q \<Rightarrow> replay_loop records (dict_set q (z, c) lookup))))"

definition load_replay_data :: "env \<Rightarrow> ustring \<Rightarrow> error + replay_lookup" where
  "load_replay_data E path =
     (case replay_json E path of
        None \<Rightarrow> Inl (FileError path)
      | Some records \<Rightarrow> replay_loop records [])"

subsection \<open>The live client and the retrying call\<close>

text \<open>
  \<^verbatim>\<open>
  def build_client(base_url=None):
      api_key = os.getenv("OPENAI_API_KEY")
      if not api_key: raise EnvironmentError(...)
      if OpenAI is None: raise RuntimeError(...)
      return OpenAI(api_key=api_key, base_url=base_url)
  \<close>
\<close>

datatype client = OpenAI ustring "ustring option"

definition build_client :: "env \<Rightarrow> ustring option \<Rightarrow> error + client" where
  "build_client E url =
     (let api_key = getenv_OPENAI_API_KEY E
      in if \<not> truthy api_key then Inl EnvironmentError
         else if \<not> openai_installed E then Inl RuntimeError_sdk
         else Inr (OpenAI (the api_key) url))"

text \<open>
  The body of the \<^verbatim>\<open>try\<close> block: one request to the service. On \<^verbatim>\<open>None\<close> the
  attribute access fails before anything is sent.
\<close>

definition chat_completions_create ::
  "env \<Rightarrow> client option \<Rightarrow> ustring \<Rightarrow> ustring \<Rightarrow> real \<Rightarrow> world \<Rightarrow> (call_error + ustring) \<times> world" where
  "chat_completions_create E cl mdl prm temp w =
     (case cl of
        None \<Rightarrow> (Inl AttributeError, w)
      | Some c \<Rightarrow>
          (service E (requests w) mdl prm temp,
           emit (Request mdl prm temp) (w\<lparr>requests := requests w + 1\<rparr>)))"

text \<open>
  \<^verbatim>\<open>
  def run_chat_completion(client, model, prompt, temperature, max_retries, retry_wait):
      attempt = 0
      wait = retry_wait
      last_error = None
      while attempt <= max_retries:
          try:
              response = client.chat.completions.create(...)
              return response.choices[0].message.content
          except Exception as exc:
              last_error = exc
              if attempt == max_retries: break
              sleep = wait * (2**attempt)
              print(...)
              time.sleep(sleep)
              attempt += 1
      raise RuntimeError(f"API ...: {last_error}")
  \<close>
  The loop is \<open>retry_loop\<close>, with the loop variables \<open>attempt\<close> and
  \<open>last_error\<close> as arguments. In \<^verbatim>\<open>wait * (2**attempt)\<close> the integer is converted to a
  float, which raises \<^verbatim>\<open>OverflowError\<close> from \<^verbatim>\<open>2**1024\<close> on. That exception and those of
  \<^verbatim>\<open>time.sleep\<close> are raised inside the handler and leave the function.
\<close>

function retry_loop ::
  "env \<Rightarrow> client option \<Rightarrow> ustring \<Rightarrow> ustring \<Rightarrow> real \<Rightarrow> int \<Rightarrow> real \<Rightarrow> nat \<Rightarrow>
   call_error option \<Rightarrow> world \<Rightarrow> (error + ustring) \<times> world" where
  "retry_loop E cl mdl prm temp maxr wait attempt last_error w =
     (if int attempt \<le> maxr then
        (case chat_completions_create E cl mdl prm temp w of
           (Inr content, w1) \<Rightarrow> (Inr content, w1)
         | (Inl exc, w1) \<Rightarrow>
             if int attempt = maxr then (Inl (RuntimeError_api (Some exc)), w1)
             else if 1024 \<le> attempt then (Inl OverflowError, w1)
             else (case time_sleep E (wait * 2 ^ attempt) w1 of
                     (Inl e, w2) \<Rightarrow> (Inl e, w2)
                   | (Inr u, w2) \<Rightarrow>
                       retry_loop E cl mdl prm temp maxr wait (attempt + 1) (Some exc) w2))
      else (Inl (RuntimeError_api last_error), w))"
  by pat_completeness auto
termination
  by (relation "measure (\<lambda>(E, cl, mdl, prm, temp, maxr, wait, attempt, last_error, w).
                  nat (maxr + 1 - int attempt))") auto

declare retry_loop.simps [simp del]

definition run_chat_completion ::
  "env \<Rightarrow> client option \<Rightarrow> ustring \<Rightarrow> ustring \<Rightarrow> real \<Rightarrow> int \<Rightarrow> real \<Rightarrow> world \<Rightarrow>
   (error + ustring) \<times> world" where
  "run_chat_completion E cl mdl prm temp maxr wait w =
     retry_loop E cl mdl prm temp maxr wait 0 None w"

subsection \<open>The simulated provider\<close>

text \<open>
  \<^verbatim>\<open>
  def simulate_answer(question, mode):
      intro = "[...]"
      if mode == "cot":
          return (f"{intro} ...\n1. ...{question.prompt}\n"
                  f"2. ... {question.ground_truth or '..'}.")
      return f"{intro} {question.prompt} => {question.ground_truth or '..'}"
  \<close>
  The literals are the code points of the source's CJK text. The two call sites pass
  \<^verbatim>\<open>"zero"\<close> and \<^verbatim>\<open>"cot"\<close>.
\<close>

datatype mode = Zero | Cot

definition unknown_text :: ustring where
  "unknown_text = [26410, 30693]"

definition simulate_answer :: "QuestionSpec \<Rightarrow> mode \<Rightarrow> ustring" where
  "simulate_answer question m =
     (let intro = [91, 27169, 25311, 22238, 31572, 93]
      in case m of
           Cot \<Rightarrow>
             intro @ [32, 35753, 25105, 20204, 19968, 27493, 19968, 27493, 22320, 20998, 26512,
                      65306, 10, 49, 46, 32, 38382, 39064, 65306]
               @ prompt question
               @ [10, 50, 46, 32, 25512, 29702, 8230, 8230, 25152, 20197, 31572, 26696, 26159, 32]
               @ or_else (ground_truth question) unknown_text @ [12290]
         | Zero \<Rightarrow>
             intro @ [32] @ prompt question @ [32, 61, 62, 32]
               @ or_else (ground_truth question) unknown_text)"

subsection \<open>The result store\<close>

text \<open>
  \<^verbatim>\<open>
  def save_results(results, output_dir, metadata, save_markdown):
      ensure_dir(output_dir)
      run_folder = output_dir / metadata["run_id"]
      ensure_dir(run_folder)
      result_path = run_folder / "results.json"
      payload = {"metadata": metadata, "records": results}
      result_path.write_text(json.dumps(payload, ensure_ascii=False, indent=2), "utf-8")
      if save_markdown:
          md_path = run_folder / "results.md"
          md_path.write_text(format_markdown(results, metadata), "utf-8")
      return run_folder
  \<close>
\<close>

definition results_json :: ustring where
  "results_json = [114, 101, 115, 117, 108, 116, 115, 46, 106, 115, 111, 110]"

definition results_md :: ustring where
  "results_md = [114, 101, 115, 117, 108, 116, 115, 46, 109, 100]"

definition ensure_dir :: "path \<Rightarrow> world \<Rightarrow> world" where
  "ensure_dir p w = emit (MakeDirs p) w"

definition write_text :: "path \<Rightarrow> file_content \<Rightarrow> world \<Rightarrow> world" where
  "write_text p c w = emit (WriteText p c) w"

definition save_results ::
  "result_entry list \<Rightarrow> path \<Rightarrow> metadata \<Rightarrow> bool \<Rightarrow> world \<Rightarrow> path \<times> world" where
  "save_results results out_dir md save_md w =
     (let w1 = ensure_dir out_dir w;
          run_folder = Slash out_dir (run_id md);
          w2 = ensure_dir run_folder w1;
          result_path = Slash run_folder results_json;
          w3 = write_text result_path (JsonPayload md results) w2;
          w4 = (if save_md
                then write_text (Slash run_folder results_md) (MarkdownTable results md) w3
                else w3)
      in (run_folder, w4))"

subsection \<open>The run\<close>

text \<open>
  The provider branch of the loop body of \<^verbatim>\<open>main\<close>:
  \<^verbatim>\<open>
  if replay_lookup:
      replay = replay_lookup.get(question.prompt)
      if not replay: raise KeyError(...)
      zero_answer = replay["zero_shot"]; cot_answer = replay["cot"]
  elif args.dry_run:
      zero_answer = simulate_answer(question, "zero")
      cot_answer = simulate_answer(question, "cot")
  else:
      zero_answer = run_chat_completion(client, args.model, zero_prompt, ...)
      time.sleep(args.pause)
      cot_answer = run_chat_completion(client, args.model, cot_prompt, ...)
  \<close>
  A recorded entry is a dictionary of two keys, so \<^verbatim>\<open>not replay\<close> holds only when the
  lookup found nothing.
\<close>

definition question_answers ::
  "env \<Rightarrow> args \<Rightarrow> client option \<Rightarrow> replay_lookup \<Rightarrow> QuestionSpec \<Rightarrow> ustring \<Rightarrow> ustring \<Rightarrow>
   world \<Rightarrow> (error + ustring \<times> ustring) \<times> world" where
  "question_answers E a cl lookup question zero_prompt cot_prompt' w =
     (if lookup \<noteq> [] then
        (case map_of lookup (prompt question) of
           None \<Rightarrow> (Inl (KeyError (prompt question)), w)
         | Some replay \<Rightarrow> (Inr (fst replay, snd replay), w))
      else if dry_run a then
        (Inr (simulate_answer question Zero, simulate_answer question Cot), w)
      else
        (case run_chat_completion E cl (model a) zero_prompt (temperature a)
                (max_retries a) (retry_wait a) w of
           (Inl e, w1) \<Rightarrow> (Inl e, w1)
         | (Inr zero_answer, w1) \<Rightarrow>
             (case time_sleep E (pause a) w1 of
                (Inl e, w2) \<Rightarrow> (Inl e, w2)
              | (Inr u, w2) \<Rightarrow>
                  (case run_chat_completion E cl (model a) cot_prompt' (temperature a)
                          (max_retries a) (retry_wait a) w2 of
                     (Inl e, w3) \<Rightarrow> (Inl e, w3)
                   | (Inr cot_answer', w3) \<Rightarrow> (Inr (zero_answer, cot_answer'), w3)))))"

text \<open>
  The loop of \<^verbatim>\<open>main\<close> over the questions; \<open>results\<close> is the list the loop appends to.
  A primed name is the source's variable of that name, which is a field name as well.
  \<^verbatim>\<open>
  for idx, question in enumerate(questions, start=1):
      zero_prompt = build_prompt(question.prompt, args.zero_shot_suffix)
      cot_prompt = build_prompt(question.prompt, args.cot_suffix)
      ... (the provider branch)
      zero_correct = is_answer_correct(zero_answer, question.ground_truth)
      cot_correct = is_answer_correct(cot_answer, question.ground_truth)
      result_entry = {...}
      results.append(result_entry)
      time.sleep(args.pause)
  \<close>
\<close>

fun main_loop ::
  "unicode_db \<Rightarrow> env \<Rightarrow> args \<Rightarrow> client option \<Rightarrow> replay_lookup \<Rightarrow> QuestionSpec list \<Rightarrow>
   result_entry list \<Rightarrow> world \<Rightarrow> (error + result_entry list) \<times> world" where
  "main_loop U E a cl lookup [] results w = (Inr results, w)"
| "main_loop U E a cl lookup (question # questions) results w =
     (let zero_prompt = build_prompt U (prompt question) (zero_shot_suffix a);
          cot_prompt' = build_prompt U (prompt question) (cot_suffix a)
      in case question_answers E a cl lookup question zero_prompt cot_prompt' w of
           (Inl e, w1) \<Rightarrow> (Inl e, w1)
         | (Inr (zero_answer, cot_answer'), w1) \<Rightarrow>
             (let zero_correct = is_answer_correct U zero_answer (ground_truth question);
                  cot_correct' = is_answer_correct U cot_answer' (ground_truth question);
                  entry = \<lparr>r_question = prompt question,
                           r_rationale = rationale question,
                           r_ground_truth = ground_truth question,
                           zero_shot_prompt = zero_prompt,
                           cot_prompt = cot_prompt',
                           zero_shot_answer = zero_answer,
                           cot_answer = cot_answer',
                           zero_shot_correct = zero_correct,
                           cot_correct = cot_correct'\<rparr>
              in case time_sleep E (pause a) w1 of
                   (Inl e, w2) \<Rightarrow> (Inl e, w2)
                 | (Inr u, w2) \<Rightarrow>
                     main_loop U E a cl lookup questions (results @ [entry]) w2))"

text \<open>
  \<^verbatim>\<open>
  def main(argv=None):
      args = parse_args(argv)
      questions = load_questions(args.questions_file)
      replay_lookup = load_replay_data(args.replay_file) if args.replay_file else {}
      client = None
      if not args.dry_run and not replay_lookup:
          client = build_client(args.base_url)
      run_id = args.tag or now_stamp()
      results = []
      for ...                                   (the loop above)
      metadata = {"run_id": run_id, "model": args.model, ...,
                  "question_count": len(questions),
                  "timestamp": dt.datetime.now().isoformat()}
      if args.replay_file:
          metadata["replay_file"] = args.replay_file
      output_dir = save_results(results, Path(args.output_dir), metadata,
                                save_markdown=args.save_markdown)
  \<close>
  \<open>main\<close> starts in the world in which nothing has happened yet and returns the
  exception that ended it, if any, with the world it leaves.
\<close>

definition make_metadata :: "env \<Rightarrow> args \<Rightarrow> ustring \<Rightarrow> QuestionSpec list \<Rightarrow> metadata" where
  "make_metadata E a rid questions =
     \<lparr>run_id = rid,
      m_model = model a,
      m_temperature = temperature a,
      m_cot_suffix = cot_suffix a,
      m_zero_shot_suffix = zero_shot_suffix a,
      question_count = length questions,
      timestamp = clock_iso E,
      m_replay_file = (if truthy (replay_file a) then replay_file a else None)\<rparr>"

definition main :: "unicode_db \<Rightarrow> env \<Rightarrow> args \<Rightarrow> (error + unit) \<times> world" where
  "main U E a =
     (case load_questions E (questions_file a) of
        Inl e \<Rightarrow> (Inl e, initial_world)
      | Inr questions \<Rightarrow>
          (case (if truthy (replay_file a) then load_replay_data E (the (replay_file a))
                 else Inr []) of
             Inl e \<Rightarrow> (Inl e, initial_world)
           | Inr lookup \<Rightarrow>
               (case (if \<not> dry_run a \<and> lookup = []
                      then map_sum id Some (build_client E (base_url a))
                      else Inr None) of
                  Inl e \<Rightarrow> (Inl e, initial_world)
                | Inr cl \<Rightarrow>
                    (let rid = (if truthy (tag a) then the (tag a) else clock_stamp E)
                     in case main_loop U E a cl lookup questions [] initial_world of
                          (Inl e, w) \<Rightarrow> (Inl e, w)
                        | (Inr results, w) \<Rightarrow>
                            (let md = make_metadata E a rid questions;
                                 (run_folder, w') =
                                    save_results results (Path (output_dir a)) md
                                      (save_markdown a) w
                             in (Inr (), w'))))))"

section \<open>Observing a run\<close>

text \<open>
  The events that touch the output directory, the \<^verbatim>\<open>results.json\<close> payloads a trace
  writes and the paths of all files it writes, in order.
\<close>

fun is_store_event :: "event \<Rightarrow> bool" where
  "is_store_event (MakeDirs p) = True"
| "is_store_event (WriteText p c) = True"
| "is_store_event (Request mdl prm temp) = False"
| "is_store_event (Sleep d) = False"

fun json_writes :: "event list \<Rightarrow> (path \<times> metadata \<times> result_entry list) list" where
  "json_writes [] = []"
| "json_writes (WriteText p (JsonPayload md rs) # evs) = (p, md, rs) # json_writes evs"
| "json_writes (ev # evs) = json_writes evs"


text \<open>
  The entry the loop builds for a question: the question's fields, the two prompts and
  the two scores of the entry's own answers.
\<close>

definition entry_of :: "unicode_db \<Rightarrow> args \<Rightarrow> QuestionSpec \<Rightarrow> result_entry \<Rightarrow> bool" where
  "entry_of U a q e \<longleftrightarrow>
     r_question e = prompt q \<and> r_rationale e = rationale q \<and> r_ground_truth e = ground_truth q
     \<and> zero_shot_prompt e = build_prompt U (prompt q) (zero_shot_suffix a)
     \<and> cot_prompt e = build_prompt U (prompt q) (cot_suffix a)
     \<and> zero_shot_correct e = is_answer_correct U (zero_shot_answer e) (ground_truth q)
     \<and> cot_correct e = is_answer_correct U (cot_answer e) (ground_truth q)"

section \<open>Concrete inputs\<close>

text \<open>
  The defaults of \<^verbatim>\<open>parse_args\<close> (model \<^verbatim>\<open>gpt-4o-mini\<close>, temperature 0.1, the two default
  suffixes, three retries from 3 seconds, a pause of one second, output directory
  \<^verbatim>\<open>outputs\<close>), and an environment with no credential, no readable file and a service
  that fails every request. Its longest sleep is the whole seconds of \<open>2 ^ 63\<close>
  nanoseconds, CPython's time type; the evaluations sleep for 1, 2, -1 or \<open>10 ^ 10\<close>
  seconds only, far from that bound. The evaluations below change what they need.
\<close>

definition default_args :: args where
  "default_args =
     \<lparr>model = [103, 112, 116, 45, 52, 111, 45, 109, 105, 110, 105],
      temperature = 1 / 10,
      cot_suffix = [35753, 25105, 20204, 19968, 27493, 19968, 27493, 22320, 24605, 32771, 12290],
      zero_shot_suffix = [35831, 30452, 25509, 32473, 20986, 26368, 32456, 31572, 26696, 12290],
      max_retries = 3,
      retry_wait = 3,
      pause = 1,
      output_dir = [111, 117, 116, 112, 117, 116, 115],
      questions_file = None,
      base_url = None,
      replay_file = None,
      dry_run = False,
      save_markdown = False,
      tag = None\<rparr>"

definition bare_env :: env where
  "bare_env =
     \<lparr>getenv_OPENAI_API_KEY = None,
      openai_installed = True,
      questions_json = (\<lambda>p. None),
      replay_json = (\<lambda>p. None),
      clock_stamp = [50, 48, 50, 54, 48, 49, 48, 49, 45, 48, 48, 48, 48, 48, 48],
      clock_iso = [50, 48, 50, 54, 45, 48, 49, 45, 48, 49, 84, 48, 48, 58, 48, 48, 58, 48, 48],
      sleep_max = 9223372036,
      service = (\<lambda>k mdl prm temp. Inl (ServiceError [98, 111, 111, 109]))\<rparr>"

text \<open>
  Inputs of the evaluations: an environment in which every path reads as the given
  question items and replay records, the default arguments with one-letter suffixes
  and the tag \<^verbatim>\<open>t1\<close>, the question items "Q" (ground truth "?"), "R" (no ground
  truth) and "T" (ground truth "4"), and a replay record for "Q" with the answers "A"
  and "B".
\<close>

definition q_json :: ustring where
  "q_json = [113, 46, 106, 115, 111, 110]"

definition r_json :: ustring where
  "r_json = [114, 46, 106, 115, 111, 110]"

definition env_with :: "question_item list \<Rightarrow> replay_item list \<Rightarrow> env" where
  "env_with items records =
     bare_env\<lparr>questions_json := (\<lambda>p. Some items), replay_json := (\<lambda>p. Some records)\<rparr>"

definition short_args :: args where
  "short_args = default_args\<lparr>cot_suffix := [99], zero_shot_suffix := [122], tag := Some [116, 49]\<rparr>"

definition question_Q :: question_item where
  "question_Q = \<lparr>item_prompt = Some [81], item_ground_truth = Some [63], item_rationale = None\<rparr>"

definition question_R :: question_item where
  "question_R = \<lparr>item_prompt = Some [82], item_ground_truth = None, item_rationale = None\<rparr>"

definition question_T :: question_item where
  "question_T = \<lparr>item_prompt = Some [84], item_ground_truth = Some [52], item_rationale = None\<rparr>"

definition record_Q :: replay_item where
  "record_Q = \<lparr>item_question = Some [81], item_zero_shot_answer = Some [65],
                item_cot_answer = Some [66]\<rparr>"

section \<open>Facts about the string methods\<close>

lemma py_startswith_iff: "py_startswith s p \<longleftrightarrow> (\<exists>post. s = p @ post)"
  by (induction s p rule: py_startswith.induct) auto

lemma py_contains_iff: "py_contains hay needle \<longleftrightarrow> (\<exists>pre post. hay = pre @ needle @ post)"
proof (induction hay)
  case Nil
  then show ?case by auto
next
  case (Cons c cs)
  show ?case
  proof
    assume "py_contains (c # cs) needle"
    then consider "py_startswith (c # cs) needle" | "py_contains cs needle" by auto
    then show "\<exists>pre post. c # cs = pre @ needle @ post"
    proof cases
      case 1
      then obtain post where "c # cs = needle @ post" by (auto simp: py_startswith_iff)
      then have "c # cs = [] @ needle @ post" by simp
      then show ?thesis by blast
    next
      case 2
      then obtain pre post where "cs = pre @ needle @ post" using Cons.IH by auto
      then have "c # cs = (c # pre) @ needle @ post" by simp
      then show ?thesis by blast
    qed
  next
    assume "\<exists>pre post. c # cs = pre @ needle @ post"
    then obtain pre post where e: "c # cs = pre @ needle @ post" by blast
    show "py_contains (c # cs) needle"
    proof (cases pre)
      case Nil
      with e have "py_startswith (c # cs) needle" by (auto simp: py_startswith_iff)
      then show ?thesis by simp
    next
      case (Cons a pre')
      with e have "cs = pre' @ needle @ post" by simp
      then have "py_contains cs needle" using Cons.IH by blast
      then show ?thesis by simp
    qed
  qed
qed

lemma py_endswith_iff: "py_endswith s suf \<longleftrightarrow> (\<exists>pre. s = pre @ suf)"
proof
  assume "py_endswith s suf"
  then have "s = take (length s - length suf) s @ suf"
    by (metis append_take_drop_id py_endswith_def)
  then show "\<exists>pre. s = pre @ suf" ..
next
  assume "\<exists>pre. s = pre @ suf"
  then show "py_endswith s suf" by (auto simp: py_endswith_def)
qed

lemma py_strip_Nil: "py_strip U [] = []"
  by (simp add: py_strip_def)

lemma py_strip_ends:
  assumes "py_strip U s \<noteq> []"
  shows "\<not> ch_isspace U (hd (py_strip U s))" and "\<not> ch_isspace U (last (py_strip U s))"
proof -
  let ?P = "ch_isspace U"
  let ?a = "dropWhile ?P s"
  let ?b = "dropWhile ?P (rev ?a)"
  have b: "?b \<noteq> []" using assms by (simp add: py_strip_def)
  then have "\<not> ?P (hd ?b)" by (rule hd_dropWhile)
  then show "\<not> ?P (last (py_strip U s))"
    using b by (simp add: py_strip_def last_rev)
  have a: "?a \<noteq> []"
  proof
    assume e: "?a = []"
    have "?b = []" unfolding e by simp
    with b show False by contradiction
  qed
  then have na: "\<not> ?P (hd ?a)" by (rule hd_dropWhile)
  have "\<exists>zs. rev ?a = zs @ ?b"
    by (metis takeWhile_dropWhile_id)
  then obtain zs where "rev ?a = zs @ ?b" ..
  then have "?a = rev ?b @ rev zs" by (metis rev_append rev_rev_ident)
  then have "hd ?a = hd (rev ?b)" using b by (metis hd_append2 rev_is_Nil_conv)
  with na show "\<not> ?P (hd (py_strip U s))" by (simp add: py_strip_def)
qed

lemma py_strip_append_clean:
  assumes "t \<noteq> []" "\<not> ch_isspace U (hd t)" "\<not> ch_isspace U (last t)"
  shows "py_strip U (pre @ t) = dropWhile (ch_isspace U) pre @ t"
proof -
  let ?P = "ch_isspace U"
  have t: "dropWhile ?P t = t" using assms(1,2) by (cases t) auto
  have 1: "dropWhile ?P (pre @ t) = dropWhile ?P pre @ t"
    using t by (simp add: dropWhile_append)
  have "rev t \<noteq> []" "\<not> ?P (hd (rev t))" using assms by (simp_all add: hd_rev)
  then have 2: "dropWhile ?P (rev t @ ys) = rev t @ ys" for ys
    by (cases "rev t") auto
  show ?thesis by (simp add: py_strip_def 1 2)
qed

lemma py_strip_clean:
  assumes "t \<noteq> []" "\<not> ch_isspace U (hd t)" "\<not> ch_isspace U (last t)"
  shows "py_strip U t = t"
  using py_strip_append_clean [OF assms, of "[]"] by simp

lemma py_strip_idem: "py_strip U (py_strip U s) = py_strip U s"
proof (cases "py_strip U s = []")
  case True
  then show ?thesis by (simp add: py_strip_Nil)
next
  case False
  then show ?thesis by (intro py_strip_clean py_strip_ends)
qed

lemma build_prompt_of_endswith:
  "py_endswith q (py_strip U s) \<Longrightarrow> build_prompt U q s = py_strip U q"
  by (simp add: build_prompt_def Let_def)

lemma build_prompt_of_empty_suffix:
  "py_strip U s = [] \<Longrightarrow> build_prompt U q s = py_strip U q"
  by (simp add: build_prompt_def Let_def)

lemma build_prompt_of_append:
  "py_strip U s \<noteq> [] \<Longrightarrow> \<not> py_endswith q (py_strip U s) \<Longrightarrow>
   build_prompt U q s = py_strip U (py_strip U q @ [32] @ py_strip U s)"
  by (simp add: build_prompt_def Let_def)

lemma py_strip_keeps_suffix:
  assumes "py_strip U s \<noteq> []" "py_endswith q (py_strip U s)"
  shows "py_endswith (py_strip U q) (py_strip U s)"
proof -
  let ?t = "py_strip U s"
  note ends = py_strip_ends [OF assms(1)]
  from assms(2) obtain pre where "q = pre @ ?t" unfolding py_endswith_iff ..
  then have "py_strip U q = dropWhile (ch_isspace U) pre @ ?t"
    using py_strip_append_clean [OF assms(1) ends, of pre] by simp
  then show ?thesis unfolding py_endswith_iff ..
qed

lemma build_prompt_append_shape:
  assumes "py_strip U s \<noteq> []"
  shows "py_strip U (py_strip U q @ [32] @ py_strip U s)
         = dropWhile (ch_isspace U) (py_strip U q @ [32]) @ py_strip U s"
proof -
  note ends = py_strip_ends [OF assms]
  have "py_strip U ((py_strip U q @ [32]) @ py_strip U s)
        = dropWhile (ch_isspace U) (py_strip U q @ [32]) @ py_strip U s"
    by (rule py_strip_append_clean [OF assms ends])
  then show ?thesis by simp
qed

lemma build_prompt_endswith:
  assumes "py_strip U s \<noteq> []"
  shows "py_endswith (build_prompt U q s) (py_strip U s)"
proof (cases "py_endswith q (py_strip U s)")
  case True
  then have "py_endswith (py_strip U q) (py_strip U s)"
    by (rule py_strip_keeps_suffix [OF assms])
  then show ?thesis by (simp only: build_prompt_of_endswith [OF True])
next
  case False
  have "py_endswith (py_strip U (py_strip U q @ [32] @ py_strip U s)) (py_strip U s)"
    unfolding build_prompt_append_shape [OF assms] py_endswith_iff by blast
  then show ?thesis by (simp only: build_prompt_of_append [OF assms False])
qed

lemma build_prompt_stripped: "py_strip U (build_prompt U q s) = build_prompt U q s"
  by (simp add: build_prompt_def Let_def py_strip_idem)

lemma normalize_text_append:
  "normalize_text U (xs @ ys) = normalize_text U xs @ normalize_text U ys"
  by (simp add: normalize_text_def)

lemma normalize_text_Cons:
  "normalize_text U (c # x) = (if ch_isalnum U c then ch_lower U c else []) @ normalize_text U x"
  by (simp add: normalize_text_def)

lemma normalize_text_fixed:
  "\<forall>d \<in> set ys. ch_isalnum U d \<and> ch_lower U d = [d] \<Longrightarrow> normalize_text U ys = ys"
proof (induction ys)
  case Nil
  show ?case by (simp add: normalize_text_def)
next
  case (Cons a ys)
  from Cons.prems have "ch_isalnum U a" "ch_lower U a = [a]"
    by (meson list.set_intros(1))+
  moreover from Cons.prems have "\<forall>d \<in> set ys. ch_isalnum U d \<and> ch_lower U d = [d]"
    by (meson list.set_intros(2))
  then have "normalize_text U ys = ys" by (rule Cons.IH)
  ultimately show ?case by (simp only: normalize_text_Cons if_True append.simps)
qed

section \<open>The evaluator\<close>

text \<open>
  C3. The score is unknown when the ground truth is empty or normalizes to the empty
  string; otherwise it is true exactly when the normalized ground truth is a
  contiguous substring of the normalized answer. In particular it is unknown for the
  empty ground truth, true for the answer "basket finally has 30 apples" (in Chinese)
  against "30", and false for "the answer is 20" against "30".
\<close>

theorem is_answer_correct_score:
  "is_answer_correct U answer truth =
     (if truth = [] \<or> normalize_text U truth = [] then None
      else Some (\<exists>pre post. normalize_text U answer = pre @ normalize_text U truth @ post))
   \<and> is_answer_correct U answer [] = None
   \<and> is_answer_correct py_unicode
        [31726, 23376, 37324, 26368, 32456, 26377, 51, 48, 20010, 33529, 26524] [51, 48]
      = Some True
   \<and> is_answer_correct py_unicode [31572, 26696, 26159, 50, 48] [51, 48] = Some False"
proof (intro conjI)
  show "is_answer_correct U answer truth =
     (if truth = [] \<or> normalize_text U truth = [] then None
      else Some (\<exists>pre post. normalize_text U answer = pre @ normalize_text U truth @ post))"
    by (simp add: is_answer_correct_def Let_def py_contains_iff)
  show "is_answer_correct U answer [] = None"
    by (simp add: is_answer_correct_def)
  show "is_answer_correct py_unicode
        [31726, 23376, 37324, 26368, 32456, 26377, 51, 48, 20010, 33529, 26524] [51, 48]
      = Some True"
    by (simp add: is_answer_correct_def normalize_text_def py_unicode_def py_isalnum_def
        py_lower_def)
  show "is_answer_correct py_unicode [31572, 26696, 26159, 50, 48] [51, 48] = Some False"
    by (simp add: is_answer_correct_def normalize_text_def py_unicode_def py_isalnum_def
        py_lower_def)
qed

text \<open>
  C6, as the spec states it, fails: U+0130 is alphanumeric and lower-cases to "i"
  followed by U+0307, a combining mark that is not alphanumeric, so a second
  normalization drops the mark.
\<close>

theorem normalize_text_not_idempotent:
  "normalize_text py_unicode (normalize_text py_unicode [304]) \<noteq> normalize_text py_unicode [304]"
  by (simp add: normalize_text_def py_unicode_def py_isalnum_def py_lower_def)

text \<open>
  C6, amended. Normalization keeps the alphanumeric code points, lower-cases each and
  concatenates the results; it is idempotent on every text whose alphanumeric code
  points lower-case to alphanumeric code points that lower-casing leaves unchanged.
\<close>

theorem normalize_text_idempotent_on:
  assumes "\<forall>c \<in> set x. ch_isalnum U c \<longrightarrow>
             (\<forall>d \<in> set (ch_lower U c). ch_isalnum U d \<and> ch_lower U d = [d])"
  shows "normalize_text U (normalize_text U x) = normalize_text U x"
  using assms
proof (induction x)
  case Nil
  show ?case by (simp add: normalize_text_def)
next
  case (Cons c x)
  from Cons.prems
  have "\<forall>c \<in> set x. ch_isalnum U c \<longrightarrow>
          (\<forall>d \<in> set (ch_lower U c). ch_isalnum U d \<and> ch_lower U d = [d])"
    by (meson list.set_intros(2))
  then have IH: "normalize_text U (normalize_text U x) = normalize_text U x" by (rule Cons.IH)
  show ?case
  proof (cases "ch_isalnum U c")
    case True
    with Cons.prems have "\<forall>d \<in> set (ch_lower U c). ch_isalnum U d \<and> ch_lower U d = [d]"
      by (meson list.set_intros(1))
    then have "normalize_text U (ch_lower U c) = ch_lower U c"
      by (rule normalize_text_fixed)
    then show ?thesis using True IH
      by (simp only: normalize_text_Cons normalize_text_append if_True)
  next
    case False
    then show ?thesis using IH by (simp only: normalize_text_Cons if_False append.simps)
  qed
qed

theorem normalize_text_idempotent_on_witness:
  "normalize_text py_unicode (normalize_text py_unicode [65, 98, 32, 51, 31572, 12290])
   = normalize_text py_unicode [65, 98, 32, 51, 31572, 12290]
   \<and> normalize_text py_unicode [65, 98, 32, 51, 31572, 12290] = [97, 98, 51, 31572]"
proof
  show "normalize_text py_unicode (normalize_text py_unicode [65, 98, 32, 51, 31572, 12290])
        = normalize_text py_unicode [65, 98, 32, 51, 31572, 12290]"
    by (rule normalize_text_idempotent_on)
      (simp add: py_unicode_def py_isalnum_def py_lower_def)
  show "normalize_text py_unicode [65, 98, 32, 51, 31572, 12290] = [97, 98, 51, 31572]"
    by (simp add: normalize_text_def py_unicode_def py_isalnum_def py_lower_def)
qed

section \<open>The prompt builder\<close>

text \<open>
  C7. Building a prompt from a built prompt, with the same suffix, changes nothing.
\<close>

theorem build_prompt_idempotent:
  "build_prompt U (build_prompt U q s) s = build_prompt U q s"
proof (cases "py_strip U s = []")
  case True
  then show ?thesis by (simp add: build_prompt_def Let_def py_strip_idem)
next
  case False
  then have "py_endswith (build_prompt U q s) (py_strip U s)" by (rule build_prompt_endswith)
  then have "build_prompt U (build_prompt U q s) s = py_strip U (build_prompt U q s)"
    by (rule build_prompt_of_endswith)
  then show ?thesis by (simp add: build_prompt_stripped)
qed

text \<open>
  C5, as the spec states it, fails twice. For the empty question and the suffix "x"
  the trimmed question does not end with the suffix, yet the result is "x", not " x":
  the joined text is trimmed once more. For the question "a " and the suffix "a" the
  trimmed question ends with the suffix, yet the result is "a a": the test reads the
  question before it is trimmed.
\<close>

theorem build_prompt_counterexample:
  "py_strip py_unicode [120] \<noteq> []
   \<and> \<not> py_endswith (py_strip py_unicode []) (py_strip py_unicode [120])
   \<and> build_prompt py_unicode [] [120]
       \<noteq> py_strip py_unicode [] @ [32] @ py_strip py_unicode [120]
   \<and> py_endswith (py_strip py_unicode [97, 32]) (py_strip py_unicode [97])
   \<and> build_prompt py_unicode [97, 32] [97] \<noteq> py_strip py_unicode [97, 32]"
  by (simp add: build_prompt_def py_strip_def py_endswith_def py_unicode_def py_isspace_def)

text \<open>
  C5, amended. With the suffix and the question trimmed of surrounding whitespace:
  if the trimmed suffix is empty, or the question as given already ends with the
  trimmed suffix, the result is the trimmed question; if the trimmed suffix is not
  empty and the trimmed question does not end with it, the result is the trimmed
  question, a single space and the trimmed suffix when the trimmed question is not
  empty, and the trimmed suffix alone when it is empty (the space being whitespace).
\<close>

theorem build_prompt_result:
  "(py_strip U s = [] \<or> py_endswith q (py_strip U s) \<longrightarrow>
      build_prompt U q s = py_strip U q)
   \<and> (py_strip U s \<noteq> [] \<and> \<not> py_endswith (py_strip U q) (py_strip U s)
        \<and> py_strip U q \<noteq> [] \<longrightarrow>
      build_prompt U q s = py_strip U q @ [32] @ py_strip U s)
   \<and> (py_strip U s \<noteq> [] \<and> py_strip U q = [] \<and> ch_isspace U 32 \<longrightarrow>
      build_prompt U q s = py_strip U s)"
proof (intro conjI impI)
  assume "py_strip U s = [] \<or> py_endswith q (py_strip U s)"
  then show "build_prompt U q s = py_strip U q"
    using build_prompt_of_empty_suffix build_prompt_of_endswith by blast
next
  assume a: "py_strip U s \<noteq> [] \<and> \<not> py_endswith (py_strip U q) (py_strip U s)
        \<and> py_strip U q \<noteq> []"
  then have s: "py_strip U s \<noteq> []" and q: "py_strip U q \<noteq> []" by simp_all
  from a have "\<not> py_endswith q (py_strip U s)"
    using py_strip_keeps_suffix [OF s] by blast
  then have "build_prompt U q s = py_strip U (py_strip U q @ [32] @ py_strip U s)"
    by (rule build_prompt_of_append [OF s])
  also have "\<dots> = dropWhile (ch_isspace U) (py_strip U q @ [32]) @ py_strip U s"
    by (rule build_prompt_append_shape [OF s])
  also have "dropWhile (ch_isspace U) (py_strip U q @ [32]) = py_strip U q @ [32]"
    using q py_strip_ends(1) [OF q] by (cases "py_strip U q") auto
  finally show "build_prompt U q s = py_strip U q @ [32] @ py_strip U s" by simp
next
  assume a: "py_strip U s \<noteq> [] \<and> py_strip U q = [] \<and> ch_isspace U 32"
  then have s: "py_strip U s \<noteq> []" and q: "py_strip U q = []" and sp: "ch_isspace U 32"
    by simp_all
  have "\<not> py_endswith q (py_strip U s)"
  proof
    assume "py_endswith q (py_strip U s)"
    then have "py_endswith (py_strip U q) (py_strip U s)" by (rule py_strip_keeps_suffix [OF s])
    with q s show False by (simp add: py_endswith_def)
  qed
  then have "build_prompt U q s = py_strip U (py_strip U q @ [32] @ py_strip U s)"
    by (rule build_prompt_of_append [OF s])
  also have "\<dots> = dropWhile (ch_isspace U) (py_strip U q @ [32]) @ py_strip U s"
    by (rule build_prompt_append_shape [OF s])
  finally show "build_prompt U q s = py_strip U s" using q sp by simp
qed

theorem build_prompt_result_witness:
  "build_prompt py_unicode [32, 97, 32] [32] = [97]
   \<and> build_prompt py_unicode [32, 97, 32, 98] [32, 98, 32] = [97, 32, 98]
   \<and> build_prompt py_unicode [32, 97, 32] [32, 98, 32] = [97, 32, 98]
   \<and> build_prompt py_unicode [32] [32, 98, 32] = [98]"
  using build_prompt_result [of py_unicode "[32]" "[32, 97, 32]"]
        build_prompt_result [of py_unicode "[32, 98, 32]" "[32, 97, 32, 98]"]
        build_prompt_result [of py_unicode "[32, 98, 32]" "[32, 97, 32]"]
        build_prompt_result [of py_unicode "[32, 98, 32]" "[32]"]
  by (simp add: py_strip_def py_endswith_def py_unicode_def py_isspace_def)

section \<open>The retrying call\<close>

lemma create_Some:
  "chat_completions_create E (Some c) mdl prm temp w =
     (service E (requests w) mdl prm temp,
      w\<lparr>requests := requests w + 1, trace := trace w @ [Request mdl prm temp]\<rparr>)"
  by (simp add: chat_completions_create_def emit_def)

lemma time_sleep_accepts:
  "0 \<le> seconds \<Longrightarrow> seconds \<le> sleep_max E \<Longrightarrow>
   time_sleep E seconds w = (Inr (), w\<lparr>trace := trace w @ [Sleep seconds]\<rparr>)"
  by (simp add: time_sleep_def emit_def)


lemma retry_loop_success_now:
  assumes "int attempt \<le> maxr" "service E (requests w) mdl prm temp = Inr content"
  shows "retry_loop E (Some c) mdl prm temp maxr wait attempt lerr w =
           (Inr content, w\<lparr>requests := requests w + 1, trace := trace w @ [Request mdl prm temp]\<rparr>)"
  using assms by (subst retry_loop.simps) (simp add: create_Some)











section \<open>Effects of the run\<close>

lemma json_writes_append: "json_writes (xs @ ys) = json_writes xs @ json_writes ys"
  by (induction xs rule: json_writes.induct) simp_all

lemma json_writes_no_store: "filter is_store_event evs = [] \<Longrightarrow> json_writes evs = []"
  by (induction evs rule: json_writes.induct) (simp_all split: if_splits)

lemma create_store_events:
  "chat_completions_create E cl mdl prm temp w = (r, w') \<Longrightarrow>
   filter is_store_event (trace w') = filter is_store_event (trace w)"
  by (auto simp: chat_completions_create_def emit_def split: option.splits)

lemma time_sleep_store_events:
  "time_sleep E seconds w = (r, w') \<Longrightarrow>
   filter is_store_event (trace w') = filter is_store_event (trace w)"
  by (auto simp: time_sleep_def emit_def split: if_splits)

lemma retry_loop_store_events:
  "retry_loop E cl mdl prm temp maxr wait attempt lerr w = (r, w') \<Longrightarrow>
   filter is_store_event (trace w') = filter is_store_event (trace w)"
proof (induction E cl mdl prm temp maxr wait attempt lerr w rule: retry_loop.induct)
  case (1 E cl mdl prm temp maxr wait attempt lerr w)
  show ?case
  proof (cases "int attempt \<le> maxr")
    case False
    with "1.prems" show ?thesis by (simp add: retry_loop.simps)
  next
    case True
    obtain r1 w1 where c: "chat_completions_create E cl mdl prm temp w = (r1, w1)"
      by (cases "chat_completions_create E cl mdl prm temp w")
    then have t1: "filter is_store_event (trace w1) = filter is_store_event (trace w)"
      by (rule create_store_events)
    show ?thesis
    proof (cases r1)
      case (Inr content)
      with True c "1.prems" have "w' = w1" by (simp add: retry_loop.simps)
      with t1 show ?thesis by simp
    next
      case (Inl exc)
      show ?thesis
      proof (cases "int attempt = maxr")
        case e: True
        with True c Inl "1.prems" have "w' = w1" by (simp add: retry_loop.simps)
        with t1 show ?thesis by simp
      next
        case ne: False
        show ?thesis
        proof (cases "1024 \<le> attempt")
          case big: True
          with True c Inl ne "1.prems" have "w' = w1" by (simp add: retry_loop.simps)
          with t1 show ?thesis by simp
        next
          case small: False
          obtain r2 w2 where s: "time_sleep E (wait * 2 ^ attempt) w1 = (r2, w2)"
            by (cases "time_sleep E (wait * 2 ^ attempt) w1")
          then have t2: "filter is_store_event (trace w2) = filter is_store_event (trace w1)"
            by (rule time_sleep_store_events)
          show ?thesis
          proof (cases r2)
            case e: (Inl e)
            with True c Inl ne small s "1.prems" have "w' = w2" by (simp add: retry_loop.simps)
            with t1 t2 show ?thesis by simp
          next
            case u: (Inr u)
            with True c Inl ne small s "1.prems"
            have "retry_loop E cl mdl prm temp maxr wait (attempt + 1) (Some exc) w2 = (r, w')"
              by (simp add: retry_loop.simps)
            then have "filter is_store_event (trace w') = filter is_store_event (trace w2)"
              using "1.IH" [OF True c [symmetric] _ ne small s [symmetric] _] Inl u by simp
            with t1 t2 show ?thesis by simp
          qed
        qed
      qed
    qed
  qed
qed

lemma question_answers_store_events:
  "question_answers E a cl lookup question zp cp w = (r, w') \<Longrightarrow>
   filter is_store_event (trace w') = filter is_store_event (trace w)"
  unfolding question_answers_def run_chat_completion_def
  by (auto split: if_splits option.splits prod.splits sum.splits
           dest!: retry_loop_store_events time_sleep_store_events)

lemma main_loop_store_events:
  "main_loop U E a cl lookup questions results w = (r, w') \<Longrightarrow>
   filter is_store_event (trace w') = filter is_store_event (trace w)"
proof (induction questions arbitrary: results w)
  case Nil
  then show ?case by simp
next
  case (Cons question questions)
  let ?zp = "build_prompt U (prompt question) (zero_shot_suffix a)"
  let ?cp = "build_prompt U (prompt question) (cot_suffix a)"
  obtain r1 w1 where q: "question_answers E a cl lookup question ?zp ?cp w = (r1, w1)"
    by (cases "question_answers E a cl lookup question ?zp ?cp w")
  then have t1: "filter is_store_event (trace w1) = filter is_store_event (trace w)"
    by (rule question_answers_store_events)
  show ?case
  proof (cases r1)
    case (Inl e)
    with q Cons.prems have "w' = w1" by (simp add: Let_def)
    with t1 show ?thesis by simp
  next
    case (Inr ans)
    obtain za ca where ans: "ans = (za, ca)" by (cases ans)
    obtain r2 w2 where s: "time_sleep E (pause a) w1 = (r2, w2)"
      by (cases "time_sleep E (pause a) w1")
    then have t2: "filter is_store_event (trace w2) = filter is_store_event (trace w1)"
      by (rule time_sleep_store_events)
    show ?thesis
    proof (cases r2)
      case (Inl e)
      with q Inr ans s Cons.prems have "w' = w2" by (simp add: Let_def)
      with t1 t2 show ?thesis by simp
    next
      case u: (Inr u)
      with q Inr ans s Cons.prems obtain entry where
        "main_loop U E a cl lookup questions (results @ [entry]) w2 = (r, w')"
        by (simp add: Let_def)
      then have "filter is_store_event (trace w') = filter is_store_event (trace w2)"
        by (rule Cons.IH)
      with t1 t2 show ?thesis by simp
    qed
  qed
qed

lemma main_loop_entries:
  "main_loop U E a cl lookup questions results w = (Inr rs, w') \<Longrightarrow>
   \<exists>new. rs = results @ new \<and> list_all2 (entry_of U a) questions new"
proof (induction questions arbitrary: results w)
  case Nil
  then show ?case by simp
next
  case (Cons question questions)
  let ?zp = "build_prompt U (prompt question) (zero_shot_suffix a)"
  let ?cp = "build_prompt U (prompt question) (cot_suffix a)"
  obtain r1 w1 where q: "question_answers E a cl lookup question ?zp ?cp w = (r1, w1)"
    by (cases "question_answers E a cl lookup question ?zp ?cp w")
  show ?case
  proof (cases r1)
    case (Inl e)
    with q Cons.prems show ?thesis by (simp add: Let_def)
  next
    case (Inr ans)
    obtain za ca where ans: "ans = (za, ca)" by (cases ans)
    let ?entry = "\<lparr>r_question = prompt question, r_rationale = rationale question,
                    r_ground_truth = ground_truth question, zero_shot_prompt = ?zp,
                    cot_prompt = ?cp, zero_shot_answer = za, cot_answer = ca,
                    zero_shot_correct = is_answer_correct U za (ground_truth question),
                    cot_correct = is_answer_correct U ca (ground_truth question)\<rparr>"
    obtain r2 w2 where s: "time_sleep E (pause a) w1 = (r2, w2)"
      by (cases "time_sleep E (pause a) w1")
    from q Inr ans s Cons.prems have
      "main_loop U E a cl lookup questions (results @ [?entry]) w2 = (Inr rs, w')"
      by (cases r2) (simp_all add: Let_def)
    then obtain new where new: "rs = (results @ [?entry]) @ new"
        "list_all2 (entry_of U a) questions new"
      using Cons.IH by blast
    have "entry_of U a question ?entry" by (simp add: entry_of_def)
    with new have "rs = results @ (?entry # new)"
        "list_all2 (entry_of U a) (question # questions) (?entry # new)"
      by simp_all
    then show ?thesis by blast
  qed
qed

lemma is_answer_correct_None:
  "is_answer_correct U answer truth = None \<longleftrightarrow> truth = [] \<or> normalize_text U truth = []"
  by (simp add: is_answer_correct_def Let_def)

section \<open>The run as a whole\<close>

lemmas eval_defs = main_def load_questions_def truthy_def default_args_def bare_env_def
  build_client_def question_answers_def simulate_answer_def Let_def
  build_prompt_def py_strip_def py_endswith_def py_unicode_def py_isspace_def
  is_answer_correct_def normalize_text_def py_isalnum_def py_lower_def or_else_def
  unknown_text_def time_sleep_def emit_def initial_world_def save_results_def
  ensure_dir_def write_text_def make_metadata_def load_replay_data_def
  run_chat_completion_def chat_completions_create_def env_with_def short_args_def
  q_json_def r_json_def question_Q_def question_R_def question_T_def record_Q_def

lemma save_results_trace:
  "save_results results out md smd w =
     (Slash out (run_id md),
      w\<lparr>trace := trace w
          @ [MakeDirs out, MakeDirs (Slash out (run_id md)),
             WriteText (Slash (Slash out (run_id md)) results_json) (JsonPayload md results)]
          @ (if smd
             then [WriteText (Slash (Slash out (run_id md)) results_md) (MarkdownTable results md)]
             else [])\<rparr>)"
  by (simp add: save_results_def ensure_dir_def write_text_def emit_def Let_def)

lemma main_startup:
  assumes "load_questions E (questions_file a) = Inr questions"
    and "(if truthy (replay_file a) then load_replay_data E (the (replay_file a)) else Inr [])
         = Inr lookup"
    and "(if \<not> dry_run a \<and> lookup = [] then map_sum id Some (build_client E (base_url a))
          else Inr None) = Inr cl"
  shows "main U E a =
     (case main_loop U E a cl lookup questions [] initial_world of
        (Inl e, w) \<Rightarrow> (Inl e, w)
      | (Inr results, w) \<Rightarrow>
          (Inr (),
           snd (save_results results (Path (output_dir a))
                 (make_metadata E a (if truthy (tag a) then the (tag a) else clock_stamp E)
                    questions)
                 (save_markdown a) w)))"
  by (simp only: main_def assms sum.case Let_def case_prod_beta)

lemma main_cases:
  obtains (startup) e where "main U E a = (Inl e, initial_world)"
  | (running) questions lookup cl where
      "load_questions E (questions_file a) = Inr questions"
      "(if truthy (replay_file a) then load_replay_data E (the (replay_file a)) else Inr [])
         = Inr lookup"
      "(if \<not> dry_run a \<and> lookup = [] then map_sum id Some (build_client E (base_url a))
          else Inr None) = Inr cl"
proof (cases "load_questions E (questions_file a)")
  case (Inl e)
  then have "main U E a = (Inl e, initial_world)" by (simp add: main_def)
  then show ?thesis by (rule startup)
next
  case q: (Inr questions)
  show ?thesis
  proof (cases "if truthy (replay_file a) then load_replay_data E (the (replay_file a)) else Inr []")
    case (Inl e)
    with q have "main U E a = (Inl e, initial_world)" by (simp add: main_def)
    then show ?thesis by (rule startup)
  next
    case r: (Inr lookup)
    show ?thesis
    proof (cases "if \<not> dry_run a \<and> lookup = [] then map_sum id Some (build_client E (base_url a))
          else Inr None")
      case (Inl e)
      with q r have "main U E a = (Inl e, initial_world)" by (simp add: main_def)
      then show ?thesis by (rule startup)
    next
      case (Inr cl)
      with q r show ?thesis by (rule running)
    qed
  qed
qed


lemma main_loop_length:
  "main_loop U E a cl lookup questions results w = (Inr rs, w') \<Longrightarrow>
   length rs = length results + length questions"
  by (drule main_loop_entries) (auto dest: list_all2_lengthD)

lemma main_loop_replay_present:
  assumes "lookup \<noteq> []" "\<forall>q \<in> set before. map_of lookup (prompt q) \<noteq> None"
    and "0 \<le> pause a" "pause a \<le> sleep_max E"
  shows "\<exists>new. main_loop U E a cl lookup (before @ rest) results w =
           main_loop U E a cl lookup rest (results @ new)
             (w\<lparr>trace := trace w @ replicate (length before) (Sleep (pause a))\<rparr>)"
  using assms(2)
proof (induction before arbitrary: results w)
  case Nil
  have "main_loop U E a cl lookup ([] @ rest) results w =
        main_loop U E a cl lookup rest (results @ []) (w\<lparr>trace := trace w @ replicate (length ([]::QuestionSpec list)) (Sleep (pause a))\<rparr>)"
    by simp
  then show ?case by blast
next
  case (Cons q before)
  from Cons.prems obtain replay where "map_of lookup (prompt q) = Some replay" by auto
  then obtain za ca where r: "map_of lookup (prompt q) = Some (za, ca)"
    by (cases replay) auto
  from Cons.prems have "\<forall>q \<in> set before. map_of lookup (prompt q) \<noteq> None" by simp
  note IH = Cons.IH [OF this]
  let ?w = "w\<lparr>trace := trace w @ [Sleep (pause a)]\<rparr>"
  obtain entry where step: "main_loop U E a cl lookup ((q # before) @ rest) results w =
      main_loop U E a cl lookup (before @ rest) (results @ [entry]) ?w"
    using assms(1) r
    by (simp add: question_answers_def Let_def time_sleep_accepts [OF assms(3,4)])
  from IH [of "results @ [entry]" ?w] obtain new where
    "main_loop U E a cl lookup (before @ rest) (results @ [entry]) ?w =
     main_loop U E a cl lookup rest ((results @ [entry]) @ new)
       (?w\<lparr>trace := trace ?w @ replicate (length before) (Sleep (pause a))\<rparr>)" ..
  with step have "main_loop U E a cl lookup ((q # before) @ rest) results w =
     main_loop U E a cl lookup rest (results @ (entry # new))
       (w\<lparr>trace := trace w @ replicate (length (q # before)) (Sleep (pause a))\<rparr>)"
    by simp
  then show ?case ..
qed

lemma main_loop_replay_missing:
  assumes "lookup \<noteq> []" "map_of lookup (prompt q) = None"
  shows "main_loop U E a cl lookup (q # rest) results w = (Inl (KeyError (prompt q)), w)"
  using assms by (simp add: question_answers_def Let_def)

text \<open>
  When the replay index the run loaded is not empty and the pause is a duration
  \<^verbatim>\<open>time.sleep\<close> accepts, the first question whose prompt is not a key of the index
  ends the run with the key error for that prompt: no request has been sent, and the
  trace holds only the pauses after the questions answered from the index before it.
\<close>

theorem replay_missing_question_raises:
  assumes "load_questions E (questions_file a) = Inr (before @ q # rest)"
    and "truthy (replay_file a)"
    and "load_replay_data E (the (replay_file a)) = Inr lookup"
    and "lookup \<noteq> []"
    and "\<forall>q' \<in> set before. map_of lookup (prompt q') \<noteq> None"
    and "map_of lookup (prompt q) = None"
    and "0 \<le> pause a" "pause a \<le> sleep_max E"
  shows "main U E a =
           (Inl (KeyError (prompt q)),
            \<lparr>requests = 0, trace = replicate (length before) (Sleep (pause a))\<rparr>)"
proof -
  have r: "(if truthy (replay_file a) then load_replay_data E (the (replay_file a)) else Inr [])
           = Inr lookup"
    using assms(2,3) by simp
  have c: "(if \<not> dry_run a \<and> lookup = [] then map_sum id Some (build_client E (base_url a))
            else Inr None) = Inr None"
    using assms(4) by simp
  obtain new where "main_loop U E a None lookup (before @ q # rest) [] initial_world =
      main_loop U E a None lookup (q # rest) ([] @ new)
        (initial_world\<lparr>trace := trace initial_world @ replicate (length before) (Sleep (pause a))\<rparr>)"
    using main_loop_replay_present [OF assms(4,5,7,8)] by blast
  then have "main_loop U E a None lookup (before @ q # rest) [] initial_world =
      (Inl (KeyError (prompt q)),
       initial_world\<lparr>trace := trace initial_world @ replicate (length before) (Sleep (pause a))\<rparr>)"
    by (simp only: main_loop_replay_missing [OF assms(4,6)])
  moreover have
    "initial_world\<lparr>trace := trace initial_world @ replicate (length before) (Sleep (pause a))\<rparr>
     = \<lparr>requests = 0, trace = replicate (length before) (Sleep (pause a))\<rparr>"
    by (simp add: initial_world_def)
  ultimately have "main_loop U E a None lookup (before @ q # rest) [] initial_world =
      (Inl (KeyError (prompt q)),
       \<lparr>requests = 0, trace = replicate (length before) (Sleep (pause a))\<rparr>)"
    by (simp only:)
  then show ?thesis by (simp add: main_startup [OF assms(1) r c])
qed

theorem replay_missing_question_raises_witness:
  "main py_unicode (env_with [question_Q, question_R] [record_Q])
        (short_args\<lparr>questions_file := Some q_json, replay_file := Some r_json\<rparr>)
     = (Inl (KeyError [82]), \<lparr>requests = 0, trace = [Sleep 1]\<rparr>)"
  using replay_missing_question_raises
    [of "env_with [question_Q, question_R] [record_Q]"
        "short_args\<lparr>questions_file := Some q_json, replay_file := Some r_json\<rparr>"
        "[\<lparr>prompt = [81], ground_truth = [63], rationale = []\<rparr>]"
        "\<lparr>prompt = [82], ground_truth = [], rationale = []\<rparr>" "[]"
        "[([81], ([65], [66]))]" py_unicode]
  by (simp add: load_questions_def load_replay_data_def truthy_def env_with_def bare_env_def
      short_args_def default_args_def q_json_def r_json_def question_Q_def question_R_def
      record_Q_def)

text \<open>
  C9. A run that ends with an error has made no directory and written no file. A run
  that ends normally has loaded the questions, run the loop over all of them with one
  entry each and no event of the store, and only then made the two directories and
  written \<^verbatim>\<open>results.json\<close> once (followed by \<^verbatim>\<open>results.md\<close> when requested), under
  the run id.
\<close>

theorem persistence_only_after_all_questions:
  "(\<forall>e w. main U E a = (Inl e, w) \<longrightarrow> filter is_store_event (trace w) = [])
   \<and> (\<forall>w. main U E a = (Inr (), w) \<longrightarrow>
         (\<exists>questions lookup cl results w0 md.
            load_questions E (questions_file a) = Inr questions
            \<and> main_loop U E a cl lookup questions [] initial_world = (Inr results, w0)
            \<and> length results = length questions
            \<and> filter is_store_event (trace w0) = []
            \<and> run_id md = (if truthy (tag a) then the (tag a) else clock_stamp E)
            \<and> trace w = trace w0
                 @ [MakeDirs (Path (output_dir a)),
                    MakeDirs (Slash (Path (output_dir a)) (run_id md)),
                    WriteText (Slash (Slash (Path (output_dir a)) (run_id md)) results_json)
                      (JsonPayload md results)]
                 @ (if save_markdown a
                    then [WriteText (Slash (Slash (Path (output_dir a)) (run_id md)) results_md)
                            (MarkdownTable results md)]
                    else [])
            \<and> json_writes (trace w)
                = [(Slash (Slash (Path (output_dir a)) (run_id md)) results_json, md, results)]))"
proof (cases rule: main_cases [of U E a])
  case (startup e)
  then show ?thesis by (simp add: initial_world_def)
next
  case (running questions lookup cl)
  note m = main_startup [OF running, of U]
  obtain r w0 where loop: "main_loop U E a cl lookup questions [] initial_world = (r, w0)"
    by (cases "main_loop U E a cl lookup questions [] initial_world")
  have quiet: "filter is_store_event (trace w0) = []"
    using main_loop_store_events [OF loop] by (simp add: initial_world_def)
  show ?thesis
  proof (cases r)
    case (Inl e)
    with m loop have "main U E a = (Inl e, w0)" by simp
    with quiet show ?thesis by simp
  next
    case (Inr results)
    let ?md = "make_metadata E a (if truthy (tag a) then the (tag a) else clock_stamp E) questions"
    let ?out = "Path (output_dir a)"
    let ?store = "[MakeDirs ?out, MakeDirs (Slash ?out (run_id ?md)),
                   WriteText (Slash (Slash ?out (run_id ?md)) results_json)
                     (JsonPayload ?md results)]
                  @ (if save_markdown a
                     then [WriteText (Slash (Slash ?out (run_id ?md)) results_md)
                             (MarkdownTable results ?md)]
                     else [])"
    from m loop Inr have res: "main U E a = (Inr (), w0\<lparr>trace := trace w0 @ ?store\<rparr>)"
      by (simp add: save_results_trace)
    have len: "length results = length questions"
      using main_loop_length loop Inr by fastforce
    have rid: "run_id ?md = (if truthy (tag a) then the (tag a) else clock_stamp E)"
      by (simp add: make_metadata_def)
    have jw: "json_writes (trace w0 @ ?store)
              = [(Slash (Slash ?out (run_id ?md)) results_json, ?md, results)]"
      using json_writes_no_store [OF quiet] by (simp add: json_writes_append)
    have "\<exists>questions lookup cl results' w0' md.
            load_questions E (questions_file a) = Inr questions
            \<and> main_loop U E a cl lookup questions [] initial_world = (Inr results', w0')
            \<and> length results' = length questions
            \<and> filter is_store_event (trace w0') = []
            \<and> run_id md = (if truthy (tag a) then the (tag a) else clock_stamp E)
            \<and> trace (w0\<lparr>trace := trace w0 @ ?store\<rparr>) = trace w0'
                 @ [MakeDirs (Path (output_dir a)),
                    MakeDirs (Slash (Path (output_dir a)) (run_id md)),
                    WriteText (Slash (Slash (Path (output_dir a)) (run_id md)) results_json)
                      (JsonPayload md results')]
                 @ (if save_markdown a
                    then [WriteText (Slash (Slash (Path (output_dir a)) (run_id md)) results_md)
                            (MarkdownTable results' md)]
                    else [])
            \<and> json_writes (trace (w0\<lparr>trace := trace w0 @ ?store\<rparr>))
                = [(Slash (Slash (Path (output_dir a)) (run_id md)) results_json, md, results')]"
      apply (rule exI [of _ questions], rule exI [of _ lookup], rule exI [of _ cl])
      apply (rule exI [of _ results], rule exI [of _ w0], rule exI [of _ ?md])
      using running(1) loop Inr len quiet rid jw by simp
    with res show ?thesis by simp
  qed
qed

theorem persistence_only_after_all_questions_witness:
  "main py_unicode (env_with [question_Q, question_R] [record_Q])
        (short_args\<lparr>questions_file := Some q_json, replay_file := Some r_json\<rparr>)
     = (Inl (KeyError [82]), \<lparr>requests = 0, trace = [Sleep 1]\<rparr>)
   \<and> filter is_store_event
        (trace (snd (main py_unicode (env_with [question_Q, question_R] [record_Q])
                      (short_args\<lparr>questions_file := Some q_json, replay_file := Some r_json\<rparr>))))
      = []
   \<and> fst (main py_unicode (env_with [question_Q] [])
             (short_args\<lparr>questions_file := Some q_json, dry_run := True\<rparr>)) = Inr ()
   \<and> map fst (json_writes
        (trace (snd (main py_unicode (env_with [question_Q] [])
                      (short_args\<lparr>questions_file := Some q_json, dry_run := True\<rparr>)))))
      = [Slash (Slash (Path [111, 117, 116, 112, 117, 116, 115]) [116, 49]) results_json]"
proof -
  let ?E1 = "env_with [question_Q, question_R] [record_Q]"
  let ?a1 = "short_args\<lparr>questions_file := Some q_json, replay_file := Some r_json\<rparr>"
  let ?E2 = "env_with [question_Q] []"
  let ?a2 = "short_args\<lparr>questions_file := Some q_json, dry_run := True\<rparr>"
  have 1: "main py_unicode ?E1 ?a1 = (Inl (KeyError [82]), \<lparr>requests = 0, trace = [Sleep 1]\<rparr>)"
    by (simp add: eval_defs)
  from persistence_only_after_all_questions [of py_unicode ?E1 ?a1, THEN conjunct1,
      rule_format, OF 1]
  have 2: "filter is_store_event (trace (snd (main py_unicode ?E1 ?a1))) = []"
    by (simp add: 1)
  obtain w where 3: "main py_unicode ?E2 ?a2 = (Inr (), w)"
    by (simp add: eval_defs)
  from persistence_only_after_all_questions [of py_unicode ?E2 ?a2, THEN conjunct2,
      rule_format, OF 3]
  have 4: "map fst (json_writes (trace w))
           = [Slash (Slash (Path [111, 117, 116, 112, 117, 116, 115]) [116, 49]) results_json]"
    by (auto simp: short_args_def default_args_def truthy_def)
  from 1 2 3 4 show ?thesis by simp
qed




text \<open>
  C4, as stated, fails: a question whose ground truth is "?" has a non-empty ground
  truth, yet both scores of its persisted record are unknown, since the ground truth
  normalizes to the empty string.
\<close>

theorem unknown_score_counterexample:
  "load_questions (env_with [question_Q] [])
       (questions_file (short_args\<lparr>questions_file := Some q_json, dry_run := True\<rparr>))
     = Inr [\<lparr>prompt = [81], ground_truth = [63], rationale = []\<rparr>]
   \<and> fst (main py_unicode (env_with [question_Q] [])
             (short_args\<lparr>questions_file := Some q_json, dry_run := True\<rparr>)) = Inr ()
   \<and> map (snd \<circ> snd)
        (json_writes
          (trace (snd (main py_unicode (env_with [question_Q] [])
                        (short_args\<lparr>questions_file := Some q_json, dry_run := True\<rparr>)))))
      = [[\<lparr>r_question = [81], r_rationale = [], r_ground_truth = [63],
           zero_shot_prompt = [81, 32, 122], cot_prompt = [81, 32, 99],
           zero_shot_answer = [91, 27169, 25311, 22238, 31572, 93, 32, 81, 32, 61, 62, 32, 63],
           cot_answer =
             [91, 27169, 25311, 22238, 31572, 93, 32, 35753, 25105, 20204, 19968, 27493,
              19968, 27493, 22320, 20998, 26512, 65306, 10, 49, 46, 32, 38382, 39064, 65306,
              81, 10, 50, 46, 32, 25512, 29702, 8230, 8230, 25152, 20197, 31572, 26696,
              26159, 32, 63, 12290],
           zero_shot_correct = None, cot_correct = None\<rparr>]]"
  by (simp add: eval_defs)

text \<open>
  C4, amended. A run that ends normally writes \<^verbatim>\<open>results.json\<close> once, and its records
  are one per question, in the order of the questions, each with its question's prompt
  and ground truth; a score of a record is unknown exactly when the question's ground
  truth is empty or normalizes to the empty string.
\<close>

theorem records_match_questions:
  assumes "main U E a = (Inr (), w)"
    and "load_questions E (questions_file a) = Inr questions"
  shows "\<exists>p md records.
           json_writes (trace w) = [(p, md, records)]
           \<and> length records = length questions
           \<and> (\<forall>i < length questions.
                 r_question (records ! i) = prompt (questions ! i)
                 \<and> r_ground_truth (records ! i) = ground_truth (questions ! i)
                 \<and> (zero_shot_correct (records ! i) = None \<longleftrightarrow>
                      ground_truth (questions ! i) = []
                      \<or> normalize_text U (ground_truth (questions ! i)) = [])
                 \<and> (cot_correct (records ! i) = None \<longleftrightarrow>
                      ground_truth (questions ! i) = []
                      \<or> normalize_text U (ground_truth (questions ! i)) = []))"
proof (cases rule: main_cases [of U E a])
  case (startup e)
  with assms(1) show ?thesis by simp
next
  case (running questions' lookup cl)
  with assms(2) have qs: "questions' = questions" by simp
  note m = main_startup [OF running, of U]
  obtain r w0 where loop: "main_loop U E a cl lookup questions [] initial_world = (r, w0)"
    by (cases "main_loop U E a cl lookup questions [] initial_world")
  have quiet: "filter is_store_event (trace w0) = []"
    using main_loop_store_events [OF loop] by (simp add: initial_world_def)
  show ?thesis
  proof (cases r)
    case (Inl e)
    with m loop qs assms(1) show ?thesis by simp
  next
    case (Inr records)
    let ?md = "make_metadata E a (if truthy (tag a) then the (tag a) else clock_stamp E) questions"
    from m loop Inr qs assms(1)
    have "json_writes (trace w)
          = [(Slash (Slash (Path (output_dir a)) (run_id ?md)) results_json, ?md, records)]"
      using json_writes_no_store [OF quiet]
      by (auto simp: save_results_trace json_writes_append)
    moreover from loop Inr have all2: "list_all2 (entry_of U a) questions records"
      using main_loop_entries by fastforce
    then have "length records = length questions" by (simp add: list_all2_lengthD)
    moreover have "\<forall>i < length questions.
                 r_question (records ! i) = prompt (questions ! i)
                 \<and> r_ground_truth (records ! i) = ground_truth (questions ! i)
                 \<and> (zero_shot_correct (records ! i) = None \<longleftrightarrow>
                      ground_truth (questions ! i) = []
                      \<or> normalize_text U (ground_truth (questions ! i)) = [])
                 \<and> (cot_correct (records ! i) = None \<longleftrightarrow>
                      ground_truth (questions ! i) = []
                      \<or> normalize_text U (ground_truth (questions ! i)) = [])"
    proof (intro allI impI)
      fix i assume "i < length questions"
      with all2 have "entry_of U a (questions ! i) (records ! i)" by (rule list_all2_nthD)
      then show "r_question (records ! i) = prompt (questions ! i)
                 \<and> r_ground_truth (records ! i) = ground_truth (questions ! i)
                 \<and> (zero_shot_correct (records ! i) = None \<longleftrightarrow>
                      ground_truth (questions ! i) = []
                      \<or> normalize_text U (ground_truth (questions ! i)) = [])
                 \<and> (cot_correct (records ! i) = None \<longleftrightarrow>
                      ground_truth (questions ! i) = []
                      \<or> normalize_text U (ground_truth (questions ! i)) = [])"
        by (simp add: entry_of_def is_answer_correct_None)
    qed
    ultimately show ?thesis by blast
  qed
qed

theorem records_match_questions_witness:
  "map (map (\<lambda>e. (r_question e, r_ground_truth e, zero_shot_correct e, cot_correct e))
          \<circ> (snd \<circ> snd))
     (json_writes
       (trace (snd (main py_unicode (env_with [question_Q, question_T] [])
                     (short_args\<lparr>questions_file := Some q_json, dry_run := True\<rparr>)))))
   = [[([81], [63], None, None), ([84], [52], Some True, Some True)]]"
  using records_match_questions
    [of py_unicode "env_with [question_Q, question_T] []"
        "short_args\<lparr>questions_file := Some q_json, dry_run := True\<rparr>"
        "snd (main py_unicode (env_with [question_Q, question_T] [])
               (short_args\<lparr>questions_file := Some q_json, dry_run := True\<rparr>))"
        "[\<lparr>prompt = [81], ground_truth = [63], rationale = []\<rparr>,
          \<lparr>prompt = [84], ground_truth = [52], rationale = []\<rparr>]"]
  by (simp add: eval_defs)

section \<open>Provider selection\<close>

text \<open>
  C1 at a replay fixture without records. The run is given a replay file, no dry run
  and no credential: it asks for the credential and stops. Given the credential, the
  two answers of the question come from requests to the live service, while the
  metadata still name the replay file.
\<close>

theorem empty_replay_fixture_goes_live:
  "main py_unicode (env_with [question_Q] [])
        (short_args\<lparr>questions_file := Some q_json, replay_file := Some r_json\<rparr>)
     = (Inl EnvironmentError, initial_world)
   \<and> fst (main py_unicode
            ((env_with [question_Q] [])
               \<lparr>getenv_OPENAI_API_KEY := Some [115, 107],
                service := (\<lambda>k mdl prm temp. Inr [65])\<rparr>)
            (short_args\<lparr>questions_file := Some q_json, replay_file := Some r_json\<rparr>))
     = Inr ()
   \<and> filter (\<lambda>ev. \<not> is_store_event ev)
        (trace (snd (main py_unicode
            ((env_with [question_Q] [])
               \<lparr>getenv_OPENAI_API_KEY := Some [115, 107],
                service := (\<lambda>k mdl prm temp. Inr [65])\<rparr>)
            (short_args\<lparr>questions_file := Some q_json, replay_file := Some r_json\<rparr>))))
     = [Request [103, 112, 116, 45, 52, 111, 45, 109, 105, 110, 105] [81, 32, 122] (1 / 10),
        Sleep 1,
        Request [103, 112, 116, 45, 52, 111, 45, 109, 105, 110, 105] [81, 32, 99] (1 / 10),
        Sleep 1]
   \<and> map (m_replay_file \<circ> fst \<circ> snd)
        (json_writes (trace (snd (main py_unicode
            ((env_with [question_Q] [])
               \<lparr>getenv_OPENAI_API_KEY := Some [115, 107],
                service := (\<lambda>k mdl prm temp. Inr [65])\<rparr>)
            (short_args\<lparr>questions_file := Some q_json, replay_file := Some r_json\<rparr>)))))
     = [Some r_json]"
  by (simp add: eval_defs retry_loop_success_now)

text \<open>
  C8 at a replay fixture without records. The run is given a replay file and the
  dry-run flag; the question's prompt is not in the (empty) index, yet the run ends
  normally and the persisted answers are the simulated ones.
\<close>

theorem empty_replay_fixture_falls_back:
  "load_replay_data (env_with [question_Q] []) r_json = Inr []
   \<and> fst (main py_unicode (env_with [question_Q] [])
            (short_args\<lparr>questions_file := Some q_json, replay_file := Some r_json,
               dry_run := True\<rparr>))
     = Inr ()
   \<and> map (map (\<lambda>e. (r_question e, zero_shot_answer e)) \<circ> (snd \<circ> snd))
        (json_writes (trace (snd (main py_unicode (env_with [question_Q] [])
            (short_args\<lparr>questions_file := Some q_json, replay_file := Some r_json,
               dry_run := True\<rparr>)))))
     = [[([81], simulate_answer \<lparr>prompt = [81], ground_truth = [63], rationale = []\<rparr> Zero)]]"
  by (simp add: eval_defs)

end
